theory Spec2Isabelle
  imports Main
begin

section \<open>Data of \<^verbatim>\<open>src/App.tsx\<close>\<close>

text \<open>
  \<^verbatim>\<open>type UserRole = 'moo' | 'boo' | null\<close>: the two identities are the datatype, and
  \<^verbatim>\<open>null\<close> is \<open>None\<close> of \<open>UserRole option\<close>.
  \<^verbatim>\<open>type CallState = 'idle' | 'calling' | 'ringing' | 'active' | 'ended'\<close>.
\<close>

datatype UserRole = Moo | Boo

datatype CallState = Idle | Calling | Ringing | Active | Ended

datatype action = Call | Answer | Reject | End | IceCandidate

text \<open>
  Session descriptions and candidates are opaque to the program: it only passes them on.
\<close>

type_synonym RTCSessionDescriptionInit = nat
type_synonym RTCIceCandidateInit = nat

text \<open>
  \<^verbatim>\<open>interface CallData\<close>. The fields \<^verbatim>\<open>from\<close> and \<^verbatim>\<open>to\<close> are \<open>from_role\<close> and
  \<open>to_role\<close>; an optional field is an \<open>option\<close>. The field \<^verbatim>\<open>timestamp\<close> is stamped by
  \<^verbatim>\<open>sendSignal\<close> from the wall clock and read nowhere in the program; it is left out.
\<close>

record CallData =
  from_role :: "UserRole option"
  to_role :: "UserRole option"
  offer :: "RTCSessionDescriptionInit option"
  answer :: "RTCSessionDescriptionInit option"
  candidate :: "RTCIceCandidateInit option"
  action :: action

text \<open>
  A function of the component reads the state variables as constants of the render in
  which the function was created: \<^verbatim>\<open>const [callState, setCallState] = useState(...)\<close>.
  A setter writes the store that the next render reads; it does not change the constant a
  running or an already created function sees. So every function below takes the render
  it belongs to (the constants it reads) and the world it acts on (store, refs, browser
  objects), and returns the world.
\<close>

record render =
  userRole :: "UserRole option"
  callState :: CallState
  incomingCall :: "CallData option"
  isMuted :: bool

text \<open>
  The browser objects are recorded by the calls the program makes on them. An audio
  track has the flag \<^verbatim>\<open>enabled\<close> the program assigns and the number of \<^verbatim>\<open>stop()\<close> calls;
  a stream is the list of its tracks (\<^verbatim>\<open>getUserMedia\<close> is asked for audio only, so
  \<^verbatim>\<open>getTracks()\<close> and \<^verbatim>\<open>getAudioTracks()\<close> are the same list). A peer connection holds
  the render whose handlers \<^verbatim>\<open>initializePeerConnection\<close> attached to it, and the calls of
  \<^verbatim>\<open>addTrack\<close>, \<^verbatim>\<open>setLocalDescription\<close>, \<^verbatim>\<open>setRemoteDescription\<close>, \<^verbatim>\<open>addIceCandidate\<close> and
  \<^verbatim>\<open>close\<close> in order.
\<close>

record MediaStreamTrack =
  enabled :: bool
  stop_calls :: nat

type_synonym MediaStream = "MediaStreamTrack list"

record RTCPeerConnection =
  owner :: render
  addTrack_calls :: "(nat \<times> nat) list"
  setLocalDescription_calls :: "RTCSessionDescriptionInit list"
  setRemoteDescription_calls :: "RTCSessionDescriptionInit list"
  addIceCandidate_calls :: "RTCIceCandidateInit list"
  close_calls :: nat

datatype RTCPeerConnectionState = New | Connecting | Connected | Disconnected | Failed | Closed

text \<open>
  \<^verbatim>\<open>startCall\<close> and \<^verbatim>\<open>acceptCall\<close> are \<^verbatim>\<open>async\<close>: each \<^verbatim>\<open>await\<close> is a point where the
  function is suspended and other events are handled. A task is a suspended function:
  the \<^verbatim>\<open>await\<close> it stands at, the render it was started from and its local variables
  (\<^verbatim>\<open>pc\<close>, \<^verbatim>\<open>offer\<close>, \<^verbatim>\<open>answer\<close>).
\<close>

datatype task =
    StartCall_getUserMedia render
  | StartCall_createOffer render nat
  | StartCall_setLocalDescription render nat RTCSessionDescriptionInit
  | AcceptCall_getUserMedia render
  | AcceptCall_setRemoteDescription render nat
  | AcceptCall_createAnswer render nat
  | AcceptCall_setLocalDescription render nat RTCSessionDescriptionInit

text \<open>
  The world: the store behind the six \<^verbatim>\<open>useState\<close> variables (\<open>s_\<close>), the three refs
  the call logic uses (an object is the index of its entry in \<open>connections\<close>, \<open>streams\<close>
  or \<open>intervals\<close>), the browser objects, the signals published on the channel
  \<^verbatim>\<open>'voice-calls'\<close>, the suspended functions, and the subscription to the channel: the
  render whose callback is registered, or \<open>None\<close> when there is none.
\<close>

record world =
  s_userRole :: "UserRole option"
  s_callState :: CallState
  s_callDuration :: nat
  s_isConnected :: bool
  s_incomingCall :: "CallData option"
  s_isMuted :: bool
  peerConnectionRef :: "nat option"
  localStreamRef :: "nat option"
  callTimerRef :: "nat option"
  connections :: "RTCPeerConnection list"
  streams :: "MediaStream list"
  intervals :: "bool list"
  channel :: "CallData list"
  pending :: "task list"
  subscription :: "render option"

section \<open>The setters and the browser calls\<close>

definition setUserRole :: "UserRole option \<Rightarrow> world \<Rightarrow> world" where
  "setUserRole v w = w\<lparr>s_userRole := v\<rparr>"

definition setCallState :: "CallState \<Rightarrow> world \<Rightarrow> world" where
  "setCallState v w = w\<lparr>s_callState := v\<rparr>"

definition setCallDuration :: "nat \<Rightarrow> world \<Rightarrow> world" where
  "setCallDuration v w = w\<lparr>s_callDuration := v\<rparr>"

definition setIsConnected :: "bool \<Rightarrow> world \<Rightarrow> world" where
  "setIsConnected v w = w\<lparr>s_isConnected := v\<rparr>"

definition setIncomingCall :: "CallData option \<Rightarrow> world \<Rightarrow> world" where
  "setIncomingCall v w = w\<lparr>s_incomingCall := v\<rparr>"

definition setIsMuted :: "bool \<Rightarrow> world \<Rightarrow> world" where
  "setIsMuted v w = w\<lparr>s_isMuted := v\<rparr>"

text \<open>The render that follows the last update: what a click handler sees.\<close>

definition current_render :: "world \<Rightarrow> render" where
  "current_render w =
     \<lparr>userRole = s_userRole w, callState = s_callState w,
      incomingCall = s_incomingCall w, isMuted = s_isMuted w\<rparr>"

text \<open>A call on the peer connection \<open>p\<close>: the entry is replaced by \<open>f\<close> of it.\<close>

definition on_connection :: "nat \<Rightarrow> (RTCPeerConnection \<Rightarrow> RTCPeerConnection) \<Rightarrow> world \<Rightarrow> world" where
  "on_connection p f w =
     (if p < length (connections w)
      then w\<lparr>connections := (connections w)[p := f (connections w ! p)]\<rparr> else w)"

definition on_tracks :: "nat \<Rightarrow> (MediaStreamTrack \<Rightarrow> MediaStreamTrack) \<Rightarrow> world \<Rightarrow> world" where
  "on_tracks s f w =
     (if s < length (streams w)
      then w\<lparr>streams := (streams w)[s := map f (streams w ! s)]\<rparr> else w)"

definition clearInterval :: "nat \<Rightarrow> world \<Rightarrow> world" where
  "clearInterval t w = w\<lparr>intervals := (intervals w)[t := False]\<rparr>"

text \<open>\<^verbatim>\<open>userRole === 'moo' ? 'boo' : 'moo'\<close>\<close>

definition other_role :: "UserRole option \<Rightarrow> UserRole option" where
  "other_role u = (if u = Some Moo then Some Boo else Some Moo)"

definition signal :: "UserRole option \<Rightarrow> UserRole option \<Rightarrow> action \<Rightarrow> CallData" where
  "signal f t a =
     \<lparr>from_role = f, to_role = t, offer = None, answer = None, candidate = None, action = a\<rparr>"

section \<open>The functions of the component\<close>

text \<open>\<^verbatim>\<open>sendSignal\<close>: publish on the channel.\<close>

definition sendSignal :: "CallData \<Rightarrow> world \<Rightarrow> world" where
  "sendSignal callData w = w\<lparr>channel := channel w @ [callData]\<rparr>"

text \<open>
  \<^verbatim>\<open>startCallTimer\<close>: \<^verbatim>\<open>setCallDuration(0)\<close>, then \<^verbatim>\<open>callTimerRef.current = setInterval(...)\<close>.
\<close>

definition startCallTimer :: "world \<Rightarrow> world" where
  "startCallTimer w =
     (let w1 = setCallDuration 0 w
      in w1\<lparr>intervals := intervals w1 @ [True], callTimerRef := Some (length (intervals w1))\<rparr>)"

text \<open>
  \<^verbatim>\<open>endCall\<close>. The test of the first statement reads \<^verbatim>\<open>userRole\<close> and \<^verbatim>\<open>callState\<close> of
  the render; the cleanup reads the refs; the five setters come last.
\<close>

definition endCall :: "render \<Rightarrow> world \<Rightarrow> world" where
  "endCall r w =
     (let w1 = (if userRole r \<noteq> None \<and> (callState r = Active \<or> callState r = Calling)
                then sendSignal (signal (userRole r) (other_role (userRole r)) End) w
                else w);
          w2 = (case peerConnectionRef w1 of
                  Some p \<Rightarrow>
                    (on_connection p (\<lambda>c. c\<lparr>close_calls := close_calls c + 1\<rparr>) w1)
                      \<lparr>peerConnectionRef := None\<rparr>
                | None \<Rightarrow> w1);
          w3 = (case localStreamRef w2 of
                  Some s \<Rightarrow>
                    (on_tracks s (\<lambda>t. t\<lparr>stop_calls := stop_calls t + 1\<rparr>) w2)
                      \<lparr>localStreamRef := None\<rparr>
                | None \<Rightarrow> w2);
          w4 = (case callTimerRef w3 of
                  Some t \<Rightarrow> (clearInterval t w3)\<lparr>callTimerRef := None\<rparr>
                | None \<Rightarrow> w3)
      in setIsMuted False (setIncomingCall None (setIsConnected False
           (setCallDuration 0 (setCallState Idle w4)))))"

text \<open>
  \<^verbatim>\<open>handleIncomingSignal\<close>. In the cases \<^verbatim>\<open>'answer'\<close> and \<^verbatim>\<open>'ice-candidate'\<close> the \<^verbatim>\<open>await\<close>
  is the last statement, so the call on the peer connection is all that happens.
\<close>

definition handleIncomingSignal :: "render \<Rightarrow> CallData \<Rightarrow> world \<Rightarrow> world" where
  "handleIncomingSignal r callData w =
     (case action callData of
        Call \<Rightarrow> setCallState Ringing (setIncomingCall (Some callData) w)
      | Answer \<Rightarrow>
          (case (peerConnectionRef w, answer callData) of
             (Some p, Some a) \<Rightarrow>
               on_connection p
                 (\<lambda>c. c\<lparr>setRemoteDescription_calls := setRemoteDescription_calls c @ [a]\<rparr>) w
           | _ \<Rightarrow> w)
      | Reject \<Rightarrow> endCall r w
      | End \<Rightarrow> endCall r w
      | IceCandidate \<Rightarrow>
          (case (peerConnectionRef w, candidate callData) of
             (Some p, Some c) \<Rightarrow>
               on_connection p
                 (\<lambda>pc. pc\<lparr>addIceCandidate_calls := addIceCandidate_calls pc @ [c]\<rparr>) w
           | _ \<Rightarrow> w))"

text \<open>
  The callback of the subscription:
  \<^verbatim>\<open>if (callData.to === userRole) { handleIncomingSignal(callData); }\<close>
\<close>

definition on_broadcast :: "render \<Rightarrow> CallData \<Rightarrow> world \<Rightarrow> world" where
  "on_broadcast r callData w =
     (if to_role callData = userRole r then handleIncomingSignal r callData w else w)"

text \<open>
  \<^verbatim>\<open>initializePeerConnection\<close>: a new connection whose three handlers are functions of the
  render \<open>r\<close>. The new connection is the entry \<open>length (connections w)\<close>.
\<close>

definition initializePeerConnection :: "render \<Rightarrow> world \<Rightarrow> world" where
  "initializePeerConnection r w =
     w\<lparr>connections := connections w @
        [\<lparr>owner = r, addTrack_calls = [], setLocalDescription_calls = [],
          setRemoteDescription_calls = [], addIceCandidate_calls = [], close_calls = 0\<rparr>]\<rparr>"

text \<open>\<^verbatim>\<open>pc.onicecandidate\<close>\<close>

definition onicecandidate :: "render \<Rightarrow> RTCIceCandidateInit option \<Rightarrow> world \<Rightarrow> world" where
  "onicecandidate r c w =
     (if c \<noteq> None \<and> userRole r \<noteq> None
      then sendSignal ((signal (userRole r) (other_role (userRole r)) IceCandidate)
                         \<lparr>candidate := c\<rparr>) w
      else w)"

text \<open>\<^verbatim>\<open>pc.onconnectionstatechange\<close>, with the value of \<^verbatim>\<open>pc.connectionState\<close>.\<close>

definition onconnectionstatechange :: "render \<Rightarrow> RTCPeerConnectionState \<Rightarrow> world \<Rightarrow> world" where
  "onconnectionstatechange r st w =
     (if st = Connected then startCallTimer (setCallState Active (setIsConnected True w))
      else if st = Disconnected \<or> st = Failed then endCall r w
      else w)"

text \<open>
  \<^verbatim>\<open>getUserMedia\<close>, when the browser yields a stream of \<open>n\<close> audio tracks (each enabled
  and live): \<^verbatim>\<open>localStreamRef.current = stream\<close>. The stream is the entry
  \<open>length (streams w)\<close>. When the browser refuses, the function rethrows and the world is
  as it was.
\<close>

definition getUserMedia :: "nat \<Rightarrow> world \<Rightarrow> world" where
  "getUserMedia n w =
     w\<lparr>streams := streams w @ [replicate n \<lparr>enabled = True, stop_calls = 0\<rparr>],
       localStreamRef := Some (length (streams w))\<rparr>"

text \<open>
  The three statements \<^verbatim>\<open>startCall\<close> and \<^verbatim>\<open>acceptCall\<close> share after
  \<^verbatim>\<open>await getUserMedia()\<close> has returned the stream: create the connection, store it in
  the ref, add every track of the stream to it.
\<close>

definition connect_stream :: "render \<Rightarrow> nat \<Rightarrow> world \<Rightarrow> world" where
  "connect_stream r n w =
     (let s = length (streams w);
          w1 = getUserMedia n w;
          pc = length (connections w1);
          w2 = (initializePeerConnection r w1)\<lparr>peerConnectionRef := Some pc\<rparr>
      in on_connection pc
           (\<lambda>c. c\<lparr>addTrack_calls := addTrack_calls c @ map (\<lambda>k. (s, k)) [0..<n]\<rparr>) w2)"

text \<open>\<^verbatim>\<open>rejectCall\<close>\<close>

definition rejectCall :: "render \<Rightarrow> world \<Rightarrow> world" where
  "rejectCall r w =
     (case incomingCall r of
        None \<Rightarrow> w
      | Some ic \<Rightarrow>
          if userRole r = None then w
          else setCallState Idle (setIncomingCall None
                 (sendSignal (signal (userRole r) (from_role ic) Reject) w)))"

text \<open>\<^verbatim>\<open>toggleMute\<close>\<close>

definition toggleMute :: "render \<Rightarrow> world \<Rightarrow> world" where
  "toggleMute r w =
     (case localStreamRef w of
        Some s \<Rightarrow> setIsMuted (\<not> isMuted r) (on_tracks s (\<lambda>t. t\<lparr>enabled := isMuted r\<rparr>) w)
      | None \<Rightarrow> w)"

text \<open>
  \<^verbatim>\<open>startCall\<close>, up to its first \<^verbatim>\<open>await\<close>: the guard, \<^verbatim>\<open>setCallState('calling')\<close>, and
  the call of \<^verbatim>\<open>getUserMedia\<close>, whose result the function waits for.
\<close>

definition startCall :: "render \<Rightarrow> world \<Rightarrow> world" where
  "startCall r w =
     (if userRole r = None then w
      else (setCallState Calling w)\<lparr>pending := pending w @ [StartCall_getUserMedia r]\<rparr>)"

text \<open>\<^verbatim>\<open>acceptCall\<close>, up to its first \<^verbatim>\<open>await\<close>.\<close>

definition acceptCall :: "render \<Rightarrow> world \<Rightarrow> world" where
  "acceptCall r w =
     (if incomingCall r = None \<or> userRole r = None then w
      else w\<lparr>pending := pending w @ [AcceptCall_getUserMedia r]\<rparr>)"

text \<open>
  How an awaited promise settles: rejected, or fulfilled with a stream of \<open>n\<close> tracks,
  with a description, or with no value.
\<close>

datatype settled =
    Rejected
  | Fulfilled_stream nat
  | Fulfilled_description RTCSessionDescriptionInit
  | Fulfilled

text \<open>
  The rest of \<^verbatim>\<open>startCall\<close> and \<^verbatim>\<open>acceptCall\<close> from each \<^verbatim>\<open>await\<close> to the next one (or
  to the end). A rejected promise throws at the \<^verbatim>\<open>await\<close>, so the \<^verbatim>\<open>catch\<close> block
  runs: \<^verbatim>\<open>setCallState('idle')\<close> in \<^verbatim>\<open>startCall\<close>, \<^verbatim>\<open>rejectCall()\<close> in \<^verbatim>\<open>acceptCall\<close>.
  A call on the peer connection is recorded when it is made, that is, where the function
  is suspended on it.
  \<open>None\<close>: the promise of this \<^verbatim>\<open>await\<close> has no such value, or the task cannot exist
  (\<^verbatim>\<open>acceptCall\<close> returns at once when \<^verbatim>\<open>incomingCall\<close> is null).
\<close>

fun resume :: "task \<Rightarrow> settled \<Rightarrow> world \<Rightarrow> world option" where
  "resume (StartCall_getUserMedia r) Rejected w = Some (setCallState Idle w)"
| "resume (StartCall_getUserMedia r) (Fulfilled_stream n) w =
     (let w1 = connect_stream r n w
      in Some (w1\<lparr>pending := pending w1 @ [StartCall_createOffer r (length (connections w))]\<rparr>))"
| "resume (StartCall_createOffer r pc) Rejected w = Some (setCallState Idle w)"
| "resume (StartCall_createOffer r pc) (Fulfilled_description d) w =
     (let w1 = on_connection pc
                 (\<lambda>c. c\<lparr>setLocalDescription_calls := setLocalDescription_calls c @ [d]\<rparr>) w
      in Some (w1\<lparr>pending := pending w1 @ [StartCall_setLocalDescription r pc d]\<rparr>))"
| "resume (StartCall_setLocalDescription r pc d) Rejected w = Some (setCallState Idle w)"
| "resume (StartCall_setLocalDescription r pc d) Fulfilled w =
     Some (sendSignal ((signal (userRole r) (other_role (userRole r)) Call)\<lparr>offer := Some d\<rparr>) w)"
| "resume (AcceptCall_getUserMedia r) Rejected w = Some (rejectCall r w)"
| "resume (AcceptCall_getUserMedia r) (Fulfilled_stream n) w =
     (let w1 = connect_stream r n w; pc = length (connections w)
      in case incomingCall r of
           None \<Rightarrow> None
         | Some ic \<Rightarrow>
             (case offer ic of
                None \<Rightarrow> Some (setIncomingCall None w1)
              | Some d \<Rightarrow>
                  (let w2 = on_connection pc
                              (\<lambda>c. c\<lparr>setRemoteDescription_calls :=
                                        setRemoteDescription_calls c @ [d]\<rparr>) w1
                   in Some (w2\<lparr>pending := pending w2 @
                                  [AcceptCall_setRemoteDescription r pc]\<rparr>))))"
| "resume (AcceptCall_setRemoteDescription r pc) Rejected w = Some (rejectCall r w)"
| "resume (AcceptCall_setRemoteDescription r pc) Fulfilled w =
     Some (w\<lparr>pending := pending w @ [AcceptCall_createAnswer r pc]\<rparr>)"
| "resume (AcceptCall_createAnswer r pc) Rejected w = Some (rejectCall r w)"
| "resume (AcceptCall_createAnswer r pc) (Fulfilled_description d) w =
     (let w1 = on_connection pc
                 (\<lambda>c. c\<lparr>setLocalDescription_calls := setLocalDescription_calls c @ [d]\<rparr>) w
      in Some (w1\<lparr>pending := pending w1 @ [AcceptCall_setLocalDescription r pc d]\<rparr>))"
| "resume (AcceptCall_setLocalDescription r pc d) Rejected w = Some (rejectCall r w)"
| "resume (AcceptCall_setLocalDescription r pc d) Fulfilled w =
     (case incomingCall r of
        None \<Rightarrow> None
      | Some ic \<Rightarrow>
          Some (setIncomingCall None
                 (sendSignal ((signal (userRole r) (from_role ic) Answer)\<lparr>answer := Some d\<rparr>)
                    w)))"
| "resume _ _ w = None"

section \<open>The component as a transition system\<close>

text \<open>
  The state variables as \<^verbatim>\<open>useState\<close> initialises them, the refs as \<^verbatim>\<open>useRef(null)\<close>,
  no browser object, nothing published, nothing suspended, no subscription.
\<close>

definition App :: world where
  "App =
     \<lparr>s_userRole = None, s_callState = Idle, s_callDuration = 0, s_isConnected = False,
      s_incomingCall = None, s_isMuted = False,
      peerConnectionRef = None, localStreamRef = None, callTimerRef = None,
      connections = [], streams = [], intervals = [], channel = [], pending = [],
      subscription = None\<rparr>"

text \<open>
  The effect that subscribes to the channel has the dependency array \<^verbatim>\<open>[userRole]\<close>: it
  runs in the render that follows a change of the identity and in no other. Its cleanup
  unsubscribes; with no identity it returns at once; with an identity it registers a
  callback that calls the \<^verbatim>\<open>handleIncomingSignal\<close> of that render, which calls the
  \<^verbatim>\<open>endCall\<close> of that render. So until the identity changes again the channel's
  callback reads the constants of the render that followed the last change: the
  identity, and the \<^verbatim>\<open>callState\<close> of that moment.

  \<open>choose_identity\<close> is a click on one of the two cards of the first screen,
  \<^verbatim>\<open>onClick={() => setUserRole('moo')}\<close>, with the effect of the render that follows;
  \<open>switch_user\<close> is the click on "Switch User", \<^verbatim>\<open>onClick={() => setUserRole(null)}\<close>,
  with the cleanup of the effect.
\<close>

definition choose_identity :: "UserRole \<Rightarrow> world \<Rightarrow> world" where
  "choose_identity me w =
     (let w1 = setUserRole (Some me) w in w1\<lparr>subscription := Some (current_render w1)\<rparr>)"

definition switch_user :: "world \<Rightarrow> world" where
  "switch_user w = (setUserRole None w)\<lparr>subscription := None\<rparr>"

text \<open>The component after the first choice of an identity.\<close>

definition chosen :: "UserRole \<Rightarrow> world" where
  "chosen me = choose_identity me App"

text \<open>
  What can happen to the component: a click on one of the two identity cards, on "Switch
  User" or on one of the five call buttons; a broadcast on the channel (any payload, for
  any recipient); the promise the \<open>n\<close>-th suspended function waits for settles; a peer
  connection reports a candidate or a connection state; an interval fires.
  (\<^verbatim>\<open>pc.ontrack\<close> only hands the remote stream to the audio element.) Nothing is assumed
  about the order in which promises settle or about what a peer connection reports.
\<close>

datatype event =
    Click_choose UserRole
  | Click_switchUser
  | Click_startCall
  | Click_endCall
  | Click_toggleMute
  | Click_rejectCall
  | Click_acceptCall
  | Broadcast CallData
  | Settle nat settled
  | IceCandidateEvent nat "RTCIceCandidateInit option"
  | ConnectionStateChange nat RTCPeerConnectionState
  | IntervalFires nat

text \<open>
  A button exists in the render that shows it. Without an identity the component shows
  the two cards and nothing else, whatever the phase; with an identity it shows the call
  screen: "Call" and "Switch User" are in the block \<^verbatim>\<open>callState === 'idle'\<close>, "Cancel" in
  \<^verbatim>\<open>callState === 'calling'\<close>, "Mute" and "End" in \<^verbatim>\<open>callState === 'active'\<close>, "Reject"
  and "Accept" in \<^verbatim>\<open>callState === 'ringing' && incomingCall\<close>. A click runs the handler
  of the current render. A broadcast runs the registered callback. The handlers of a
  peer connection are those of the render that created it. The interval's callback is
  \<^verbatim>\<open>setCallDuration(prev => prev + 1)\<close>.
\<close>

definition step :: "event \<Rightarrow> world \<Rightarrow> world" where
  "step e w =
     (case e of
        Click_choose me \<Rightarrow>
          if s_userRole w = None then choose_identity me w else w
      | Click_switchUser \<Rightarrow>
          if s_userRole w \<noteq> None \<and> s_callState w = Idle then switch_user w else w
      | Click_startCall \<Rightarrow>
          if s_userRole w \<noteq> None \<and> s_callState w = Idle
          then startCall (current_render w) w else w
      | Click_endCall \<Rightarrow>
          if s_userRole w \<noteq> None \<and> (s_callState w = Calling \<or> s_callState w = Active)
          then endCall (current_render w) w else w
      | Click_toggleMute \<Rightarrow>
          if s_userRole w \<noteq> None \<and> s_callState w = Active
          then toggleMute (current_render w) w else w
      | Click_rejectCall \<Rightarrow>
          if s_userRole w \<noteq> None \<and> s_callState w = Ringing \<and> s_incomingCall w \<noteq> None
          then rejectCall (current_render w) w else w
      | Click_acceptCall \<Rightarrow>
          if s_userRole w \<noteq> None \<and> s_callState w = Ringing \<and> s_incomingCall w \<noteq> None
          then acceptCall (current_render w) w else w
      | Broadcast callData \<Rightarrow>
          (case subscription w of
             Some r \<Rightarrow> on_broadcast r callData w
           | None \<Rightarrow> w)
      | Settle n v \<Rightarrow>
          if n < length (pending w)
          then (case resume (pending w ! n) v
                       (w\<lparr>pending := take n (pending w) @ drop (Suc n) (pending w)\<rparr>) of
                  Some w' \<Rightarrow> w'
                | None \<Rightarrow> w)
          else w
      | IceCandidateEvent p c \<Rightarrow>
          if p < length (connections w)
          then onicecandidate (owner (connections w ! p)) c w else w
      | ConnectionStateChange p st \<Rightarrow>
          if p < length (connections w)
          then onconnectionstatechange (owner (connections w ! p)) st w else w
      | IntervalFires t \<Rightarrow>
          if t < length (intervals w) \<and> intervals w ! t
          then setCallDuration (s_callDuration w + 1) w else w)"

fun run :: "event list \<Rightarrow> world \<Rightarrow> world" where
  "run [] w = w"
| "run (e # es) w = run es (step e w)"

section \<open>Sessions used as concrete inputs\<close>

text \<open>
  A caller's session up to the active phase: Moo calls, the microphone yields one track,
  the offer is created and set, the answer \<open>8\<close> arrives, the transport connects.
\<close>

definition caller_session :: "event list" where
  "caller_session =
     [Click_startCall, Settle 0 (Fulfilled_stream 1), Settle 0 (Fulfilled_description 7),
      Settle 0 Fulfilled,
      Broadcast ((signal (Some Boo) (Some Moo) Answer)\<lparr>answer := Some 8\<rparr>),
      ConnectionStateChange 0 Connected]"

text \<open>
  A callee's session: a call request with the offer \<open>5\<close> arrives at Boo, Boo accepts,
  the microphone yields one track, the offer is applied, the answer \<open>6\<close> is created, set
  and sent.
\<close>

definition callee_session :: "event list" where
  "callee_session =
     [Broadcast ((signal (Some Moo) (Some Boo) Call)\<lparr>offer := Some 5\<rparr>),
      Click_acceptCall, Settle 0 (Fulfilled_stream 1), Settle 0 Fulfilled,
      Settle 0 (Fulfilled_description 6), Settle 0 Fulfilled]"

text \<open>
  In \<open>offer_failure\<close> Moo places a call, the microphone yields a track and
  \<^verbatim>\<open>pc.createOffer()\<close> rejects. In \<open>answer_failure\<close> Boo accepts a call, the offer is
  applied and \<^verbatim>\<open>pc.createAnswer()\<close> rejects. In \<open>cancelled_call\<close> Moo clicks "Call" and
  then "Cancel" before the microphone has answered; in \<open>declined_call\<close> Boo clicks
  "Accept" and then "Reject" before the microphone has answered; in both the remaining
  promises are fulfilled afterwards. In \<open>early_candidate\<close> a candidate reaches Boo after
  the call request and before Boo accepts. In \<open>recalled_while_muted\<close> Moo, in the active
  phase and muted, receives a call request from Boo and accepts it, and the new
  transport connects.
\<close>

definition offer_failure :: "event list" where
  "offer_failure = [Click_startCall, Settle 0 (Fulfilled_stream 1), Settle 0 Rejected]"

definition answer_failure :: "event list" where
  "answer_failure =
     [Broadcast ((signal (Some Moo) (Some Boo) Call)\<lparr>offer := Some 5\<rparr>),
      Click_acceptCall, Settle 0 (Fulfilled_stream 1), Settle 0 Fulfilled, Settle 0 Rejected]"

definition recalled_while_muted :: "event list" where
  "recalled_while_muted =
     caller_session @
     [Click_toggleMute,
      Broadcast ((signal (Some Boo) (Some Moo) Call)\<lparr>offer := Some 5\<rparr>),
      Click_acceptCall, Settle 0 (Fulfilled_stream 1), Settle 0 Fulfilled,
      Settle 0 (Fulfilled_description 6), Settle 0 Fulfilled,
      ConnectionStateChange 1 Connected]"

definition cancelled_call :: "event list" where
  "cancelled_call =
     [Click_startCall, Click_endCall, Settle 0 (Fulfilled_stream 1),
      Settle 0 (Fulfilled_description 7), Settle 0 Fulfilled]"

definition declined_call :: "event list" where
  "declined_call =
     [Broadcast ((signal (Some Moo) (Some Boo) Call)\<lparr>offer := Some 5\<rparr>),
      Click_acceptCall, Click_rejectCall, Settle 0 (Fulfilled_stream 1), Settle 0 Fulfilled,
      Settle 0 (Fulfilled_description 6), Settle 0 Fulfilled]"

definition early_candidate :: "event list" where
  "early_candidate =
     [Broadcast ((signal (Some Moo) (Some Boo) Call)\<lparr>offer := Some 5\<rparr>),
      Broadcast ((signal (Some Moo) (Some Boo) IceCandidate)\<lparr>candidate := Some 9\<rparr>),
      Click_acceptCall, Settle 0 (Fulfilled_stream 1), Settle 0 Fulfilled,
      Settle 0 (Fulfilled_description 6), Settle 0 Fulfilled]"



section \<open>Notions the claims use\<close>

text \<open>
  A signal is addressed to the component when a callback is registered and the
  recipient is the identity of the callback's render:
  \<^verbatim>\<open>callData.to === userRole\<close>.
\<close>

definition addressed :: "CallData \<Rightarrow> world \<Rightarrow> bool" where
  "addressed callData w =
     (case subscription w of None \<Rightarrow> False | Some r \<Rightarrow> to_role callData = userRole r)"





text \<open>
  The registered callback belongs to a render of the current identity, and none is
  registered exactly when there is no identity.
\<close>

definition subscribed_as_chosen :: "world \<Rightarrow> bool" where
  "subscribed_as_chosen w =
     (case subscription w of
        None \<Rightarrow> s_userRole w = None
      | Some r \<Rightarrow> s_userRole w \<noteq> None \<and> userRole r = s_userRole w)"


text \<open>The call-ended signals published so far, in order.\<close>

definition call_ended_signals :: "world \<Rightarrow> CallData list" where
  "call_ended_signals w = filter (\<lambda>c. action c = End) (channel w)"

text \<open>The number of intervals that have been set and not cleared.\<close>

definition timers_running :: "world \<Rightarrow> nat" where
  "timers_running w = length (filter (\<lambda>b. b) (intervals w))"

section \<open>Basic facts\<close>

lemmas setters =
  setUserRole_def setCallState_def setCallDuration_def setIsConnected_def
  setIncomingCall_def setIsMuted_def

lemmas browser_calls =
  on_connection_def on_tracks_def clearInterval_def sendSignal_def getUserMedia_def
  initializePeerConnection_def connect_stream_def startCallTimer_def

lemmas handlers =
  endCall_def handleIncomingSignal_def on_broadcast_def onicecandidate_def
  onconnectionstatechange_def rejectCall_def toggleMute_def startCall_def acceptCall_def

lemmas evaluation =
  setters browser_calls handlers current_render_def other_role_def signal_def
  App_def choose_identity_def switch_user_def chosen_def step_def Let_def

lemma chosen_subscription:
  "subscription (chosen me) =
     Some \<lparr>userRole = Some me, callState = Idle, incomingCall = None, isMuted = False\<rparr>"
  by (simp add: chosen_def choose_identity_def current_render_def setUserRole_def App_def)

lemma caller_session_active:
  "s_callState (run caller_session (chosen Moo)) = Active"
  by (simp add: evaluation caller_session_def)

lemma resume_identity:
  "resume t v w = Some w' \<Longrightarrow> s_userRole w' = s_userRole w \<and> subscription w' = subscription w"
  by (cases t; cases v)
     (auto simp: Let_def setters browser_calls rejectCall_def split: option.splits)

lemma endCall_identity:
  "s_userRole (endCall r w) = s_userRole w" "subscription (endCall r w) = subscription w"
  by (simp_all add: endCall_def Let_def setters browser_calls split: option.splits)

lemma step_identity:
  assumes "\<forall>me. e \<noteq> Click_choose me" and "e \<noteq> Click_switchUser"
  shows "s_userRole (step e w) = s_userRole w \<and> subscription (step e w) = subscription w"
proof (cases e)
  case (Settle n v)
  then show ?thesis
    by (auto simp: step_def split: option.splits dest!: resume_identity)
next
  case (Broadcast c)
  then show ?thesis
    by (cases "action c"; cases "peerConnectionRef w"; cases "answer c"; cases "candidate c";
        cases "subscription w";
        simp add: step_def on_broadcast_def handleIncomingSignal_def endCall_identity setters
          on_connection_def)
next
  case (ConnectionStateChange p st)
  then show ?thesis
    by (simp add: step_def onconnectionstatechange_def endCall_identity startCallTimer_def
          setters Let_def)
next
  case (Click_choose me) then show ?thesis using assms by simp
next
  case Click_switchUser then show ?thesis using assms by simp
qed (simp_all add: step_def startCall_def acceptCall_def rejectCall_def toggleMute_def
       endCall_identity onicecandidate_def setters sendSignal_def on_tracks_def
       split: option.splits)

lemma step_subscribed_as_chosen: "subscribed_as_chosen w \<Longrightarrow> subscribed_as_chosen (step e w)"
proof (cases e)
  case (Click_choose me)
  assume "subscribed_as_chosen w"
  then show ?thesis using Click_choose
    by (simp add: subscribed_as_chosen_def step_def choose_identity_def current_render_def
          setters Let_def)
next
  case Click_switchUser
  assume "subscribed_as_chosen w"
  then show ?thesis using Click_switchUser
    by (simp add: subscribed_as_chosen_def step_def switch_user_def setters)
qed (use step_identity[of e w] in \<open>simp_all add: subscribed_as_chosen_def split: option.splits\<close>)

lemma run_subscribed_as_chosen: "subscribed_as_chosen w \<Longrightarrow> subscribed_as_chosen (run es w)"
  by (induction es arbitrary: w) (simp_all add: step_subscribed_as_chosen)

lemma App_subscribed_as_chosen: "subscribed_as_chosen App"
  by (simp add: subscribed_as_chosen_def App_def)

lemma addressed_iff_identity:
  "s_userRole (run es App) \<noteq> None \<Longrightarrow>
   addressed callData (run es App) = (to_role callData = s_userRole (run es App))"
  using run_subscribed_as_chosen[OF App_subscribed_as_chosen, of es]
  by (auto simp: addressed_def subscribed_as_chosen_def split: option.splits)

lemma not_addressed_without_identity:
  "s_userRole (run es App) = None \<Longrightarrow> subscription (run es App) = None"
  using run_subscribed_as_chosen[OF App_subscribed_as_chosen, of es]
  by (auto simp: subscribed_as_chosen_def split: option.splits)

lemma not_addressed_ignored: "\<not> addressed callData w \<Longrightarrow> step (Broadcast callData) w = w"
  by (simp add: step_def addressed_def on_broadcast_def split: option.splits)

text \<open>
  In every world that occurs a signal is addressed to the component exactly when its
  recipient is the current identity (\<open>addressed_iff_identity\<close>), and without an identity
  no callback is registered.
\<close>

section \<open>Signals for somebody else\<close>

text \<open>
  Claim C7. Whatever the phase, a signal that is not addressed to the component changes
  nothing: the store (phase, stored request, duration, mute flag), the refs, the browser
  objects and the suspended functions are as before, and nothing is published. In every
  world that occurs this holds for every signal whose recipient is not the current
  identity.
\<close>

theorem misaddressed_signal_ignored:
  "(\<not> addressed callData w \<longrightarrow> step (Broadcast callData) w = w) \<and>
   (to_role callData \<noteq> s_userRole (run es App) \<longrightarrow>
      step (Broadcast callData) (run es App) = run es App)"
proof (intro conjI impI)
  assume "\<not> addressed callData w"
  then show "step (Broadcast callData) w = w" by (rule not_addressed_ignored)
next
  assume a: "to_role callData \<noteq> s_userRole (run es App)"
  have "\<not> addressed callData (run es App)"
  proof (cases "s_userRole (run es App)")
    case None
    then show ?thesis using not_addressed_without_identity[of es] by (simp add: addressed_def)
  next
    case (Some u)
    then show ?thesis using a addressed_iff_identity[of es callData] by simp
  qed
  then show "step (Broadcast callData) (run es App) = run es App" by (rule not_addressed_ignored)
qed

theorem misaddressed_signal_ignored_witness:
  "\<not> addressed (signal (Some Moo) (Some Boo) End) (run caller_session (chosen Moo)) \<and>
   step (Broadcast (signal (Some Moo) (Some Boo) End)) (run caller_session (chosen Moo))
     = run caller_session (chosen Moo) \<and>
   to_role (signal (Some Moo) (Some Boo) End)
     \<noteq> s_userRole (run (Click_choose Moo # caller_session) App) \<and>
   step (Broadcast (signal (Some Moo) (Some Boo) End))
     (run (Click_choose Moo # caller_session) App)
     = run (Click_choose Moo # caller_session) App"
  using misaddressed_signal_ignored
          [of "signal (Some Moo) (Some Boo) End" "run caller_session (chosen Moo)"
              "Click_choose Moo # caller_session"]
  by (simp add: evaluation caller_session_def addressed_def)

section \<open>A call request while busy\<close>

text \<open>
  Claim C1, as amended. In every phase, idle or not, a call request addressed to the
  component is stored as the pending request and the phase becomes ringing; nothing is
  published and nothing else changes. (In every world that occurs with an identity,
  addressed means that the recipient is the identity.)
\<close>

theorem call_request_always_rings:
  "(addressed callData w \<and> action callData = Call \<longrightarrow>
      step (Broadcast callData) w = w\<lparr>s_incomingCall := Some callData, s_callState := Ringing\<rparr>) \<and>
   (s_userRole (run es App) \<noteq> None \<longrightarrow>
      addressed callData (run es App) = (to_role callData = s_userRole (run es App)))"
  using addressed_iff_identity[of es callData]
  by (auto simp: step_def addressed_def on_broadcast_def handleIncomingSignal_def setters
        split: option.splits)

theorem call_request_always_rings_witness:
  "addressed (signal (Some Boo) (Some Moo) Call) (run caller_session (chosen Moo)) \<and>
   s_callState (run caller_session (chosen Moo)) = Active \<and>
   s_callState (step (Broadcast (signal (Some Boo) (Some Moo) Call))
                  (run caller_session (chosen Moo))) = Ringing \<and>
   s_incomingCall (step (Broadcast (signal (Some Boo) (Some Moo) Call))
                     (run caller_session (chosen Moo)))
     = Some (signal (Some Boo) (Some Moo) Call) \<and>
   addressed (signal (Some Boo) (Some Moo) Call) (run (Click_choose Moo # caller_session) App)"
  using call_request_always_rings
          [of "signal (Some Boo) (Some Moo) Call" "run caller_session (chosen Moo)"
              "Click_choose Moo # caller_session"]
  by (simp add: evaluation caller_session_def addressed_def)

text \<open>
  Claim C1 as stated fails: Moo is calling, a call request from Boo arrives; the phase
  becomes ringing, the request is stored, and no rejection is published.
\<close>

theorem busy_call_request_counterexample:
  "s_callState (run [Click_startCall] (chosen Moo)) = Calling \<and>
   s_incomingCall (run [Click_startCall] (chosen Moo)) = None \<and>
   s_callState (run [Click_startCall,
       Broadcast ((signal (Some Boo) (Some Moo) Call)\<lparr>offer := Some 5\<rparr>)] (chosen Moo)) = Ringing \<and>
   s_incomingCall (run [Click_startCall,
       Broadcast ((signal (Some Boo) (Some Moo) Call)\<lparr>offer := Some 5\<rparr>)] (chosen Moo))
     = Some ((signal (Some Boo) (Some Moo) Call)\<lparr>offer := Some 5\<rparr>) \<and>
   channel (run [Click_startCall,
       Broadcast ((signal (Some Boo) (Some Moo) Call)\<lparr>offer := Some 5\<rparr>)] (chosen Moo)) = []"
  by (simp add: evaluation)

section \<open>The phases that occur\<close>


lemma endCall_phase: "s_callState (endCall r w) = Idle"
  by (simp add: endCall_def Let_def setters)

lemma on_connection_phase: "s_callState (on_connection p f w) = s_callState w"
  by (simp add: on_connection_def)

lemma rejectCall_phase: "s_callState (rejectCall r w) = Idle \<or> s_callState (rejectCall r w) = s_callState w"
  by (simp add: rejectCall_def setters sendSignal_def split: option.splits)

lemma connect_stream_phase: "s_callState (connect_stream r n w) = s_callState w"
  by (simp add: connect_stream_def Let_def on_connection_def initializePeerConnection_def getUserMedia_def)

lemma resume_phase: "resume t v w = Some w' \<Longrightarrow> s_callState w' = Idle \<or> s_callState w' = s_callState w"
  by (cases t; cases v)
     (auto simp: Let_def setters sendSignal_def on_connection_phase connect_stream_phase rejectCall_def split: option.splits if_splits)

lemma step_phase: "s_callState (step e w) = s_callState w \<or> s_callState (step e w) \<in> {Idle, Calling, Ringing, Active}"
proof (cases e)
  case (Settle n v)
  show ?thesis
  proof (cases "n < length (pending w)")
    case True
    then show ?thesis using Settle
      by (auto simp: step_def split: option.splits dest!: resume_phase)
  next
    case False then show ?thesis using Settle by (simp add: step_def)
  qed
next
  case (Broadcast c)
  then show ?thesis
    by (cases "action c") (auto simp: step_def on_broadcast_def handleIncomingSignal_def endCall_phase setters on_connection_phase split: option.splits)
next
  case (ConnectionStateChange p st)
  then show ?thesis
    by (auto simp: step_def onconnectionstatechange_def endCall_phase startCallTimer_def setters Let_def)
qed (auto simp: step_def startCall_def endCall_phase toggleMute_def rejectCall_def
      acceptCall_def onicecandidate_def choose_identity_def switch_user_def Let_def
      setters sendSignal_def on_tracks_def split: option.splits)

lemma run_phase: "s_callState w \<noteq> Ended \<Longrightarrow> s_callState (run es w) \<noteq> Ended"
proof (induction es arbitrary: w)
  case Nil then show ?case by simp
next
  case (Cons e es)
  have "s_callState (step e w) \<noteq> Ended" using step_phase[of e w] Cons.prems by auto
  then show ?case using Cons.IH by simp
qed


text \<open>
  Claim C9. No transition sets the phase to \<^verbatim>\<open>'ended'\<close>: a step leaves the phase as it
  was or sets one of idle, calling, ringing, active. So from the start, and from the
  first choice of an identity, whatever happens (choices and switches of identity
  included) the phase is one of these four.
\<close>

theorem ended_unreachable:
  "(s_callState (step e w) = Ended \<longrightarrow> s_callState w = Ended) \<and>
   s_callState (run es App) \<in> {Idle, Calling, Ringing, Active} \<and>
   s_callState (run es (chosen me)) \<in> {Idle, Calling, Ringing, Active}"
proof (intro conjI)
  show "s_callState (step e w) = Ended \<longrightarrow> s_callState w = Ended"
    using step_phase[of e w] by auto
  have "s_callState App \<noteq> Ended" by (simp add: App_def)
  then have "s_callState (run es App) \<noteq> Ended" by (rule run_phase)
  then show "s_callState (run es App) \<in> {Idle, Calling, Ringing, Active}"
    by (cases "s_callState (run es App)") auto
  have "s_callState (chosen me) \<noteq> Ended"
    by (simp add: chosen_def choose_identity_def App_def setters)
  then have "s_callState (run es (chosen me)) \<noteq> Ended" by (rule run_phase)
  then show "s_callState (run es (chosen me)) \<in> {Idle, Calling, Ringing, Active}"
    by (cases "s_callState (run es (chosen me))") auto
qed

theorem ended_unreachable_witness:
  "s_callState (step Click_endCall (run caller_session (chosen Moo))) \<noteq> Ended \<and>
   s_callState (run (Click_choose Moo # caller_session) App) \<in> {Idle, Calling, Ringing, Active} \<and>
   s_callState (run caller_session (chosen Moo)) \<in> {Idle, Calling, Ringing, Active}"
  using ended_unreachable
          [of Click_endCall "run caller_session (chosen Moo)"
              "Click_choose Moo # caller_session" Moo]
        ended_unreachable
          [of Click_endCall "run caller_session (chosen Moo)" caller_session Moo]
        caller_session_active
  by auto

section \<open>Who publishes call-ended\<close>


















lemma call_ended_store [simp]:
  "call_ended_signals (setCallState a w) = call_ended_signals w"
  "call_ended_signals (setIncomingCall b w) = call_ended_signals w"
  "call_ended_signals (setCallDuration c w) = call_ended_signals w"
  "call_ended_signals (setIsConnected d w) = call_ended_signals w"
  "call_ended_signals (setIsMuted f w) = call_ended_signals w"
  "call_ended_signals (on_connection p g w) = call_ended_signals w"
  "call_ended_signals (on_tracks s h w) = call_ended_signals w"
  "call_ended_signals (connect_stream r n w) = call_ended_signals w"
  "call_ended_signals (startCallTimer w) = call_ended_signals w"
  "call_ended_signals (w\<lparr>pending := ps\<rparr>) = call_ended_signals w"
  by (simp_all add: call_ended_signals_def setters browser_calls Let_def)






lemma endCall_teardown:
  "peerConnectionRef (endCall r w) = None \<and> localStreamRef (endCall r w) = None \<and>
   callTimerRef (endCall r w) = None \<and> s_callState (endCall r w) = Idle \<and>
   s_callDuration (endCall r w) = 0"
  by (simp add: endCall_def Let_def setters browser_calls split: option.splits)












section \<open>A second call-ended\<close>




section \<open>Teardown on the way to idle\<close>

text \<open>
  Claim C2, at the failing inputs. When \<^verbatim>\<open>createOffer\<close> rejects, \<^verbatim>\<open>startCall\<close>'s
  \<^verbatim>\<open>catch\<close> sets the phase from calling to idle and nothing else; when \<^verbatim>\<open>createAnswer\<close>
  rejects, \<^verbatim>\<open>acceptCall\<close>'s \<^verbatim>\<open>catch\<close> runs \<^verbatim>\<open>rejectCall\<close>, which sets the phase from
  ringing to idle. In both worlds the ref still holds the peer connection, which has
  had no \<^verbatim>\<open>close()\<close>, and the stream's track has had no \<^verbatim>\<open>stop()\<close>.
\<close>

theorem failed_setup_leaves_session_open: 
  "s_callState (run (butlast offer_failure) (chosen Moo)) = Calling \<and>
   s_callState (run offer_failure (chosen Moo)) = Idle \<and>
   peerConnectionRef (run offer_failure (chosen Moo)) = Some 0 \<and>
   close_calls (connections (run offer_failure (chosen Moo)) ! 0) = 0 \<and>
   localStreamRef (run offer_failure (chosen Moo)) = Some 0 \<and>
   streams (run offer_failure (chosen Moo)) ! 0 = [\<lparr>enabled = True, stop_calls = 0\<rparr>] \<and>
   s_callState (run (butlast answer_failure) (chosen Boo)) = Ringing \<and>
   s_callState (run answer_failure (chosen Boo)) = Idle \<and>
   peerConnectionRef (run answer_failure (chosen Boo)) = Some 0 \<and>
   close_calls (connections (run answer_failure (chosen Boo)) ! 0) = 0 \<and>
   streams (run answer_failure (chosen Boo)) ! 0 = [\<lparr>enabled = True, stop_calls = 0\<rparr>]"
  by (simp add: evaluation offer_failure_def answer_failure_def)

section \<open>Candidates\<close>

text \<open>
  Claim C4, as amended. A candidate addressed to the component is passed to the peer
  connection the ref holds when the signal arrives; when the ref holds none, the world
  is left as it was, so the candidate is not kept for later. (In every world that
  occurs with an identity, addressed means that the recipient is the identity.)
\<close>

theorem candidate_forwarded_only_to_existing_session:
  "(addressed callData w \<and> action callData = IceCandidate \<and> candidate callData = Some c \<longrightarrow>
     (peerConnectionRef w = None \<longrightarrow> step (Broadcast callData) w = w) \<and>
     (\<forall>p. peerConnectionRef w = Some p \<and> p < length (connections w) \<longrightarrow>
        addIceCandidate_calls (connections (step (Broadcast callData) w) ! p)
          = addIceCandidate_calls (connections w ! p) @ [c])) \<and>
   (s_userRole (run es App) \<noteq> None \<longrightarrow>
      addressed callData (run es App) = (to_role callData = s_userRole (run es App)))"
  using addressed_iff_identity[of es callData]
  by (auto simp: step_def addressed_def on_broadcast_def handleIncomingSignal_def on_connection_def
        split: option.splits)

theorem candidate_forwarded_only_to_existing_session_witness:
  "addressed ((signal (Some Moo) (Some Boo) IceCandidate)\<lparr>candidate := Some 9\<rparr>)
     (run (take 1 callee_session) (chosen Boo)) \<and>
   step (Broadcast ((signal (Some Moo) (Some Boo) IceCandidate)\<lparr>candidate := Some 9\<rparr>))
     (run (take 1 callee_session) (chosen Boo))
     = run (take 1 callee_session) (chosen Boo) \<and>
   addIceCandidate_calls
     (connections
        (step (Broadcast ((signal (Some Moo) (Some Boo) IceCandidate)\<lparr>candidate := Some 9\<rparr>))
           (run callee_session (chosen Boo))) ! 0) = [9] \<and>
   addressed ((signal (Some Moo) (Some Boo) IceCandidate)\<lparr>candidate := Some 9\<rparr>)
     (run (Click_choose Boo # callee_session) App)"
  using candidate_forwarded_only_to_existing_session
          [of "(signal (Some Moo) (Some Boo) IceCandidate)\<lparr>candidate := Some 9\<rparr>"
              "run (take 1 callee_session) (chosen Boo)" 9 "Click_choose Boo # callee_session"]
        candidate_forwarded_only_to_existing_session
          [of "(signal (Some Moo) (Some Boo) IceCandidate)\<lparr>candidate := Some 9\<rparr>"
              "run callee_session (chosen Boo)" 9]
  by (simp add: evaluation callee_session_def addressed_def)

text \<open>
  Claim C4 as stated fails: the candidate \<open>9\<close> reaches Boo while ringing, before the
  call ends; Boo then accepts and the session is set up. The world is the one of the
  session in which the candidate never arrived, and the peer connection has had no
  \<^verbatim>\<open>addIceCandidate\<close>.
\<close>

theorem early_candidate_dropped_counterexample:
  "s_callState (run (take 2 early_candidate) (chosen Boo)) = Ringing \<and>
   run early_candidate (chosen Boo) = run callee_session (chosen Boo) \<and>
   peerConnectionRef (run early_candidate (chosen Boo)) = Some 0 \<and>
   addIceCandidate_calls (connections (run early_candidate (chosen Boo)) ! 0) = []"
  by (simp add: evaluation callee_session_def early_candidate_def)

section \<open>Cancelling while a step is outstanding\<close>

lemma connect_stream_result:
  "streams (connect_stream r k w) = streams w @ [replicate k \<lparr>enabled = True, stop_calls = 0\<rparr>]"
  "localStreamRef (connect_stream r k w) = Some (length (streams w))"
  "peerConnectionRef (connect_stream r k w) = Some (length (connections w))"
  "length (connections (connect_stream r k w)) = length (connections w) + 1"
  "owner (connections (connect_stream r k w) ! length (connections w)) = r"
  "close_calls (connections (connect_stream r k w) ! length (connections w)) = 0"
  by (simp_all add: browser_calls Let_def)

text \<open>
  Claim C5, as amended. When the phase is idle and a suspended \<^verbatim>\<open>startCall\<close> or
  \<^verbatim>\<open>acceptCall\<close> is resumed, the phase is idle afterwards, but the result is not
  discarded. When the stream arrives, for \<^verbatim>\<open>startCall\<close> as for \<^verbatim>\<open>acceptCall\<close>, it is
  stored (a new stream with its tracks enabled and live, which the ref then holds) and
  a peer connection is created for it (a new, open connection with the handlers of the
  suspended function's render, which the ref then holds). When the local description
  has been set, the call request, or the answer, is published.
\<close>

theorem cancelled_operation_still_completes:
  "s_callState w = Idle \<Longrightarrow> n < length (pending w) \<Longrightarrow>
   s_callState (step (Settle n v) w) = Idle \<and>
   (pending w ! n = StartCall_getUserMedia r \<or>
    pending w ! n = AcceptCall_getUserMedia r \<and> incomingCall r = Some ic \<longrightarrow>
      (let w' = step (Settle n (Fulfilled_stream k)) w in
         streams w' = streams w @ [replicate k \<lparr>enabled = True, stop_calls = 0\<rparr>] \<and>
         localStreamRef w' = Some (length (streams w)) \<and>
         peerConnectionRef w' = Some (length (connections w)) \<and>
         length (connections w') = length (connections w) + 1 \<and>
         owner (connections w' ! length (connections w)) = r \<and>
         close_calls (connections w' ! length (connections w)) = 0)) \<and>
   (pending w ! n = StartCall_setLocalDescription r pc d \<longrightarrow>
      channel (step (Settle n Fulfilled) w)
        = channel w @ [(signal (userRole r) (other_role (userRole r)) Call)\<lparr>offer := Some d\<rparr>]) \<and>
   (pending w ! n = AcceptCall_setLocalDescription r pc d \<and> incomingCall r = Some ic \<longrightarrow>
      channel (step (Settle n Fulfilled) w)
        = channel w @ [(signal (userRole r) (from_role ic) Answer)\<lparr>answer := Some d\<rparr>])"
proof (intro conjI impI)
  assume i: "s_callState w = Idle" and n: "n < length (pending w)"
  show "s_callState (step (Settle n v) w) = Idle"
    using i n by (auto simp: step_def split: option.splits dest!: resume_phase)
next
  let ?w0 = "w\<lparr>pending := take n (pending w) @ drop (Suc n) (pending w)\<rparr>"
  assume n: "n < length (pending w)"
    and t: "pending w ! n = StartCall_getUserMedia r \<or>
            pending w ! n = AcceptCall_getUserMedia r \<and> incomingCall r = Some ic"
  show "let w' = step (Settle n (Fulfilled_stream k)) w in
         streams w' = streams w @ [replicate k \<lparr>enabled = True, stop_calls = 0\<rparr>] \<and>
         localStreamRef w' = Some (length (streams w)) \<and>
         peerConnectionRef w' = Some (length (connections w)) \<and>
         length (connections w') = length (connections w) + 1 \<and>
         owner (connections w' ! length (connections w)) = r \<and>
         close_calls (connections w' ! length (connections w)) = 0"
    using n t connect_stream_result[of r k ?w0]
    by (cases "offer ic") (auto simp: step_def Let_def on_connection_def setters)
next
  assume "n < length (pending w)" "pending w ! n = StartCall_setLocalDescription r pc d"
  then show "channel (step (Settle n Fulfilled) w)
        = channel w @ [(signal (userRole r) (other_role (userRole r)) Call)\<lparr>offer := Some d\<rparr>]"
    by (simp add: step_def browser_calls)
next
  assume "n < length (pending w)"
    "pending w ! n = AcceptCall_setLocalDescription r pc d \<and> incomingCall r = Some ic"
  then show "channel (step (Settle n Fulfilled) w)
        = channel w @ [(signal (userRole r) (from_role ic) Answer)\<lparr>answer := Some d\<rparr>]"
    by (simp add: step_def browser_calls setters)
qed

theorem cancelled_operation_still_completes_witness:
  "s_callState (run (take 4 cancelled_call) (chosen Moo)) = Idle \<and>
   s_callState (step (Settle 0 Fulfilled) (run (take 4 cancelled_call) (chosen Moo))) = Idle \<and>
   channel (step (Settle 0 Fulfilled) (run (take 4 cancelled_call) (chosen Moo)))
     = [signal (Some Moo) (Some Boo) End, (signal (Some Moo) (Some Boo) Call)\<lparr>offer := Some 7\<rparr>] \<and>
   localStreamRef
     (step (Settle 0 (Fulfilled_stream 1)) (run (take 2 cancelled_call) (chosen Moo))) = Some 0 \<and>
   streams (step (Settle 0 (Fulfilled_stream 1)) (run (take 2 cancelled_call) (chosen Moo)))
     = [[\<lparr>enabled = True, stop_calls = 0\<rparr>]] \<and>
   peerConnectionRef
     (step (Settle 0 (Fulfilled_stream 1)) (run (take 2 cancelled_call) (chosen Moo))) = Some 0 \<and>
   s_callState (run (take 3 declined_call) (chosen Boo)) = Idle \<and>
   localStreamRef
     (step (Settle 0 (Fulfilled_stream 1)) (run (take 3 declined_call) (chosen Boo))) = Some 0 \<and>
   streams (step (Settle 0 (Fulfilled_stream 1)) (run (take 3 declined_call) (chosen Boo)))
     = [[\<lparr>enabled = True, stop_calls = 0\<rparr>]] \<and>
   peerConnectionRef
     (step (Settle 0 (Fulfilled_stream 1)) (run (take 3 declined_call) (chosen Boo))) = Some 0 \<and>
   length (connections
     (step (Settle 0 (Fulfilled_stream 1)) (run (take 3 declined_call) (chosen Boo)))) = 1 \<and>
   channel (step (Settle 0 Fulfilled) (run (take 6 declined_call) (chosen Boo)))
     = [signal (Some Boo) (Some Moo) Reject,
        (signal (Some Boo) (Some Moo) Answer)\<lparr>answer := Some 6\<rparr>]"
  using cancelled_operation_still_completes
          [of "run (take 4 cancelled_call) (chosen Moo)" 0 Fulfilled
              "current_render (chosen Moo)" undefined 1 0 7]
        cancelled_operation_still_completes
          [of "run (take 2 cancelled_call) (chosen Moo)" 0 "Fulfilled_stream 1"
              "current_render (chosen Moo)" undefined 1]
        cancelled_operation_still_completes
          [of "run (take 3 declined_call) (chosen Boo)" 0 "Fulfilled_stream 1"
              "current_render (run (take 1 declined_call) (chosen Boo))"
              "(signal (Some Moo) (Some Boo) Call)\<lparr>offer := Some 5\<rparr>" 1]
        cancelled_operation_still_completes
          [of "run (take 6 declined_call) (chosen Boo)" 0 Fulfilled
              "current_render (run (take 1 declined_call) (chosen Boo))"
              "(signal (Some Moo) (Some Boo) Call)\<lparr>offer := Some 5\<rparr>" 1 0 6]
  by (simp add: evaluation cancelled_call_def declined_call_def)

text \<open>
  Claim C5 as stated fails: Moo cancels while \<^verbatim>\<open>getUserMedia\<close> is outstanding (the phase
  is idle, \<^verbatim>\<open>startCall\<close> is suspended); the promises are then fulfilled and the call
  request is published after the call-ended. Boo rejects while \<^verbatim>\<open>getUserMedia\<close> of
  \<^verbatim>\<open>acceptCall\<close> is outstanding; the answer is published after the rejection.
\<close>

theorem cancelled_call_still_requested_counterexample:
  "s_callState (run (take 2 cancelled_call) (chosen Moo)) = Idle \<and>
   pending (run (take 2 cancelled_call) (chosen Moo))
     = [StartCall_getUserMedia (current_render (chosen Moo))] \<and>
   channel (run cancelled_call (chosen Moo))
     = [signal (Some Moo) (Some Boo) End, (signal (Some Moo) (Some Boo) Call)\<lparr>offer := Some 7\<rparr>] \<and>
   s_callState (run (take 3 declined_call) (chosen Boo)) = Idle \<and>
   channel (run declined_call (chosen Boo))
     = [signal (Some Boo) (Some Moo) Reject, (signal (Some Boo) (Some Moo) Answer)\<lparr>answer := Some 6\<rparr>]"
  by (simp add: evaluation cancelled_call_def declined_call_def)

section \<open>The call timer\<close>

lemma filter_update_False: "t < length bs \<Longrightarrow> bs ! t \<Longrightarrow>
   length (filter (\<lambda>b. b) (bs[t := False])) + 1 = length (filter (\<lambda>b. b) bs)"
  by (induction bs arbitrary: t) (auto split: nat.splits)


text \<open>
  Claim C6, as amended. Every "connected" report of a peer connection sets the phase to
  active and the duration to zero and sets one more interval, which the ref then holds:
  one more timer runs than before, whether or not the phase was active already.
  \<^verbatim>\<open>endCall\<close> clears the interval the ref holds, so one timer fewer runs, clears the ref
  and sets the duration to zero and the phase to idle.
\<close>

theorem timer_started_by_each_connected_report: 
  "(p < length (connections w) \<longrightarrow>
      s_callState (step (ConnectionStateChange p Connected) w) = Active \<and>
      s_callDuration (step (ConnectionStateChange p Connected) w) = 0 \<and>
      callTimerRef (step (ConnectionStateChange p Connected) w) = Some (length (intervals w)) \<and>
      intervals (step (ConnectionStateChange p Connected) w) = intervals w @ [True] \<and>
      timers_running (step (ConnectionStateChange p Connected) w) = timers_running w + 1) \<and>
   (callTimerRef w = Some t \<and> t < length (intervals w) \<and> intervals w ! t \<longrightarrow>
      timers_running (endCall r w) + 1 = timers_running w \<and> \<not> intervals (endCall r w) ! t) \<and>
   callTimerRef (endCall r w) = None \<and> s_callDuration (endCall r w) = 0 \<and>
   s_callState (endCall r w) = Idle"
proof (intro conjI impI)
  assume "callTimerRef w = Some t \<and> t < length (intervals w) \<and> intervals w ! t"
  then have t: "callTimerRef w = Some t" "t < length (intervals w)" "intervals w ! t" by auto
  have i: "intervals (endCall r w) = (intervals w)[t := False]"
    using t by (simp add: endCall_def Let_def setters browser_calls split: option.splits)
  show "timers_running (endCall r w) + 1 = timers_running w"
    unfolding timers_running_def i using filter_update_False[OF t(2,3)] .
  show "\<not> intervals (endCall r w) ! t" unfolding i using t by simp
qed (simp_all add: step_def onconnectionstatechange_def startCallTimer_def Let_def setters timers_running_def endCall_teardown)

theorem timer_started_by_each_connected_report_witness:
  "s_callState (step (ConnectionStateChange 0 Connected)
                  (run (butlast caller_session) (chosen Moo))) = Active \<and>
   timers_running (run (butlast caller_session) (chosen Moo)) = 0 \<and>
   timers_running (step (ConnectionStateChange 0 Connected)
                     (run (butlast caller_session) (chosen Moo))) = 1 \<and>
   callTimerRef (run caller_session (chosen Moo)) = Some 0 \<and>
   timers_running (endCall (current_render (chosen Moo)) (run caller_session (chosen Moo))) = 0 \<and>
   s_callDuration (endCall (current_render (chosen Moo)) (run caller_session (chosen Moo))) = 0"
  using timer_started_by_each_connected_report
          [of 0 "run (butlast caller_session) (chosen Moo)" 0 "current_render (chosen Moo)"]
        timer_started_by_each_connected_report
          [of 0 "run caller_session (chosen Moo)" 0 "current_render (chosen Moo)"]
  by (simp add: evaluation caller_session_def timers_running_def)

text \<open>
  Claim C6 as stated fails. In the active phase with one timer running, a second
  "connected" report leaves two timers running. And a call request takes the phase from
  active to ringing with the timer still running and the duration, \<open>1\<close> after one tick,
  not reset.
\<close>

theorem second_timer_counterexample:
  "s_callState (run caller_session (chosen Moo)) = Active \<and>
   intervals (run caller_session (chosen Moo)) = [True] \<and>
   intervals (run (caller_session @ [ConnectionStateChange 0 Connected]) (chosen Moo)) = [True, True] \<and>
   s_callDuration (run (caller_session @ [IntervalFires 0]) (chosen Moo)) = 1 \<and>
   s_callState (run (caller_session @ [IntervalFires 0, Broadcast (signal (Some Boo) (Some Moo) Call)]) (chosen Moo)) = Ringing \<and>
   s_callDuration (run (caller_session @ [IntervalFires 0, Broadcast (signal (Some Boo) (Some Moo) Call)]) (chosen Moo)) = 1 \<and>
   intervals (run (caller_session @ [IntervalFires 0, Broadcast (signal (Some Boo) (Some Moo) Call)]) (chosen Moo)) = [True]"
  by (simp add: evaluation caller_session_def)

section \<open>Muting\<close>

lemma map_enabled_same: "list_all (\<lambda>t. enabled t = b) ts \<Longrightarrow> map (\<lambda>t. t\<lparr>enabled := b\<rparr>) ts = ts"
  by (induction ts) auto


text \<open>
  Claim C10, as amended. Without a local stream \<^verbatim>\<open>toggleMute\<close> changes nothing. With a
  stream, in the active phase (where the button is), two clicks on "Mute" leave the mute
  flag as it was and every track enabled exactly when the flag is off; when the tracks
  were so before, the two clicks restore the world.
\<close>

theorem toggleMute_twice:
  "(localStreamRef w = None \<longrightarrow> toggleMute r w = w \<and> step Click_toggleMute w = w) \<and>
   (localStreamRef w = Some s \<and> s < length (streams w) \<and> s_userRole w \<noteq> None \<and> s_callState w = Active \<longrightarrow>
      s_isMuted (step Click_toggleMute (step Click_toggleMute w)) = s_isMuted w \<and>
      list_all (\<lambda>t. enabled t = (\<not> s_isMuted w))
        (streams (step Click_toggleMute (step Click_toggleMute w)) ! s) \<and>
      (list_all (\<lambda>t. enabled t = (\<not> s_isMuted w)) (streams w ! s) \<longrightarrow>
         step Click_toggleMute (step Click_toggleMute w) = w))"
proof (intro conjI impI)
  assume a: "localStreamRef w = Some s \<and> s < length (streams w) \<and> s_userRole w \<noteq> None \<and> s_callState w = Active"
  have two: "step Click_toggleMute (step Click_toggleMute w)
     = w\<lparr>streams := (streams w)[s := map (\<lambda>t. t\<lparr>enabled := \<not> s_isMuted w\<rparr>) (streams w ! s)]\<rparr>"
    using a by (simp add: step_def toggleMute_def setters on_tracks_def current_render_def comp_def)
  show "s_isMuted (step Click_toggleMute (step Click_toggleMute w)) = s_isMuted w"
    unfolding two by simp
  show "list_all (\<lambda>t. enabled t = (\<not> s_isMuted w))
        (streams (step Click_toggleMute (step Click_toggleMute w)) ! s)"
    unfolding two using a by (simp add: list_all_iff)
  assume "list_all (\<lambda>t. enabled t = (\<not> s_isMuted w)) (streams w ! s)"
  then show "step Click_toggleMute (step Click_toggleMute w) = w"
    unfolding two by (simp add: map_enabled_same)
qed (simp_all add: toggleMute_def step_def)

theorem toggleMute_twice_witness:
  "toggleMute (current_render (chosen Moo)) (chosen Moo) = chosen Moo \<and>
   step Click_toggleMute (chosen Moo) = chosen Moo \<and>
   s_isMuted (step Click_toggleMute (run caller_session (chosen Moo))) = True \<and>
   streams (step Click_toggleMute (run caller_session (chosen Moo))) ! 0
     = [\<lparr>enabled = False, stop_calls = 0\<rparr>] \<and>
   step Click_toggleMute (step Click_toggleMute (run caller_session (chosen Moo)))
     = run caller_session (chosen Moo)"
  using toggleMute_twice [of "chosen Moo" "current_render (chosen Moo)"]
        toggleMute_twice [of "run caller_session (chosen Moo)" "current_render (chosen Moo)" 0]
  by (simp add: evaluation caller_session_def)

text \<open>
  Claim C10 as stated fails: Moo, active and muted, receives a call request, accepts it,
  and the new transport connects. The stream the ref now holds has its track enabled
  while the mute flag is on; after two clicks on "Mute" the track is disabled.
\<close>

theorem toggleMute_twice_counterexample:
  "s_callState (run recalled_while_muted (chosen Moo)) = Active \<and>
   localStreamRef (run recalled_while_muted (chosen Moo)) = Some 1 \<and>
   s_isMuted (run recalled_while_muted (chosen Moo)) = True \<and>
   streams (run recalled_while_muted (chosen Moo)) ! 1 = [\<lparr>enabled = True, stop_calls = 0\<rparr>] \<and>
   streams (run (recalled_while_muted @ [Click_toggleMute, Click_toggleMute]) (chosen Moo)) ! 1
      = [\<lparr>enabled = False, stop_calls = 0\<rparr>]"
  by (simp add: evaluation caller_session_def recalled_while_muted_def)

end
